theory Spec2Isabelle
  imports Main
begin

section \<open>Data model of bz2file.py\<close>

text \<open>
  Python byte strings are lists of characters. Exceptions are values of the datatype
  \<open>error\<close>; every operation returns its result (or the exception) together with the
  handle and the world it leaves behind, because an exception raised half way through
  an operation does not undo the assignments made before it.
\<close>

datatype error =
    ValueError string
  | TypeError string
  | UnsupportedOperation string
  | EOFError string
  | IOError string
  | AttributeError string

datatype mode = MODE_CLOSED | MODE_READ | MODE_READ_EOF | MODE_WRITE

definition BUFFER_SIZE :: nat where
  "BUFFER_SIZE = 8192"

subsection \<open>The underlying file object\<close>

text \<open>
  The file object \<open>_fp\<close> is an in-memory binary file: its bytes, its cursor, how often
  \<open>close()\<close> was called on it, whether it has a \<open>seekable\<close> attribute (and what it
  answers), whether it has a \<open>seek\<close> attribute, whether it appends, and its descriptor.
  Reads and writes on it never fail.
\<close>

record pyfile =
  content :: string
  cursor :: nat
  close_calls :: nat
  seekable_attr :: "bool option"
  has_seek :: bool
  append :: bool
  fd :: int

definition fp_read :: "nat \<Rightarrow> pyfile \<Rightarrow> string \<times> pyfile" where
  "fp_read n f =
     (let data = take n (drop (cursor f) (content f))
      in (data, f\<lparr>cursor := cursor f + length data\<rparr>))"

definition fp_write :: "string \<Rightarrow> pyfile \<Rightarrow> pyfile" where
  "fp_write data f =
     (let at = (if append f then length (content f) else cursor f);
          padded = content f @ replicate (at - length (content f)) (char_of (0::nat))
      in f\<lparr>content := take at padded @ data @ drop (at + length data) padded,
            cursor := at + length data\<rparr>)"

definition fp_seek0 :: "pyfile \<Rightarrow> pyfile" where
  "fp_seek0 f = f\<lparr>cursor := 0\<rparr>"


text \<open>
  File objects are shared between the handle and its caller, so they live in a store:
  the handle holds a reference. The world also records the warnings issued.
\<close>

record world =
  files :: "nat \<Rightarrow> pyfile"
  next_ref :: nat
  warnings :: "string list"

definition set_file :: "nat \<Rightarrow> pyfile \<Rightarrow> world \<Rightarrow> world" where
  "set_file r f w = w\<lparr>files := (files w)(r := f)\<rparr>"

subsection \<open>The codec\<close>

text \<open>
  \<open>BZ2Compressor\<close> and \<open>BZ2Decompressor\<close> come from the standard library and are a
  parameter of the model: a decompressor object is a state of type \<open>'d\<close>, a compressor
  object a state of type \<open>'c\<close>. \<open>decompress\<close> returns the output and the new state
  or raises (\<open>EOFError\<close> once the end of the stream was reached, \<open>IOError\<close> on
  invalid data); \<open>unused_data\<close> is the attribute of that name.
\<close>

record ('d, 'c) codec =
  BZ2Decompressor :: 'd
  decompress :: "'d \<Rightarrow> string \<Rightarrow> error + (string \<times> 'd)"
  unused_data :: "'d \<Rightarrow> string"
  BZ2Compressor :: "int \<Rightarrow> 'c"
  compress :: "'c \<Rightarrow> string \<Rightarrow> string \<times> 'c"
  flush :: "'c \<Rightarrow> string"

subsection \<open>The handle\<close>

record ('d, 'c) BZ2File =
  fp :: "nat option"
  closefp :: bool
  mode :: mode
  pos :: int
  fsize :: int
  decompressor :: "'d option"
  compressor :: "'c option"
  buffer :: "string option"

type_synonym ('a, 'd, 'c) outcome = "(error + 'a) \<times> ('d, 'c) BZ2File \<times> world"

text \<open>Truth value of \<open>self._buffer\<close>: neither \<open>None\<close> nor empty.\<close>

definition truthy :: "string option \<Rightarrow> bool" where
  "truthy b = (case b of None \<Rightarrow> False | Some xs \<Rightarrow> xs \<noteq> [])"

section \<open>Construction and closing\<close>

datatype target = Path string | FileObj nat | Other

text \<open>
  \<open>__init__\<close>. The builtin \<open>open\<close> is the parameter \<open>builtin_open\<close>: the file object
  the platform returns for a name and a mode, or the error it raises. A file object
  opened here is allocated in the store. When the constructor raises there is no handle.
\<close>

definition init ::
  "('d, 'c) codec \<Rightarrow> (string \<Rightarrow> string \<Rightarrow> error + pyfile) \<Rightarrow> target \<Rightarrow> string \<Rightarrow>
   int option \<Rightarrow> int \<Rightarrow> world \<Rightarrow> (error + ('d, 'c) BZ2File) \<times> world" where
  "init C builtin_open filename md buffering compresslevel w =
     (let self = \<lparr>fp = None, closefp = False, mode = MODE_CLOSED, pos = 0, fsize = - 1,
                   decompressor = None, compressor = None, buffer = None\<rparr>;
          w1 = (if buffering \<noteq> None
                then w\<lparr>warnings := warnings w @ [''Use of buffering argument is deprecated'']\<rparr>
                else w)
      in if \<not> (1 \<le> compresslevel \<and> compresslevel \<le> 9)
         then (Inl (ValueError ''compresslevel must be between 1 and 9''), w1)
         else
           (case (if md \<in> {'''', ''r'', ''rb''}
                  then Inr (''rb'', MODE_READ,
                            self\<lparr>decompressor := Some (BZ2Decompressor C), buffer := None\<rparr>)
                  else if md \<in> {''w'', ''wb''}
                  then Inr (''wb'', MODE_WRITE,
                            self\<lparr>compressor := Some (BZ2Compressor C compresslevel)\<rparr>)
                  else if md \<in> {''a'', ''ab''}
                  then Inr (''ab'', MODE_WRITE,
                            self\<lparr>compressor := Some (BZ2Compressor C compresslevel)\<rparr>)
                  else Inl (ValueError (''Invalid mode: '' @ md))) of
              Inl e \<Rightarrow> (Inl e, w1)
            | Inr (md', mode_code, self1) \<Rightarrow>
                (case filename of
                   Path name \<Rightarrow>
                     (case builtin_open name md' of
                        Inl e \<Rightarrow> (Inl e, w1)
                      | Inr f \<Rightarrow>
                          (Inr (self1\<lparr>fp := Some (next_ref w1), closefp := True,
                                      mode := mode_code\<rparr>),
                           w1\<lparr>files := (files w1)(next_ref w1 := f),
                              next_ref := Suc (next_ref w1)\<rparr>))
                 | FileObj r \<Rightarrow> (Inr (self1\<lparr>fp := Some r, mode := mode_code\<rparr>), w1)
                 | Other \<Rightarrow> (Inl (TypeError ''filename must be a str or bytes object, or a file''), w1))))"


definition closed :: "('d, 'c) BZ2File \<Rightarrow> bool" where
  "closed h = (mode h = MODE_CLOSED)"

subsection \<open>Mode-checking helper functions\<close>

definition check_not_closed :: "('d, 'c) BZ2File \<Rightarrow> error + unit" where
  "check_not_closed h =
     (if closed h then Inl (ValueError ''I/O operation on closed file'') else Inr ())"

definition readable :: "('d, 'c) BZ2File \<Rightarrow> error + bool" where
  "readable h =
     (case check_not_closed h of
        Inl e \<Rightarrow> Inl e
      | Inr _ \<Rightarrow> Inr (mode h = MODE_READ \<or> mode h = MODE_READ_EOF))"

definition writable :: "('d, 'c) BZ2File \<Rightarrow> error + bool" where
  "writable h =
     (case check_not_closed h of
        Inl e \<Rightarrow> Inl e
      | Inr _ \<Rightarrow> Inr (mode h = MODE_WRITE))"

definition check_can_read :: "('d, 'c) BZ2File \<Rightarrow> error + unit" where
  "check_can_read h =
     (case readable h of
        Inl e \<Rightarrow> Inl e
      | Inr b \<Rightarrow> if \<not> b then Inl (UnsupportedOperation ''File not open for reading'')
                 else Inr ())"

definition check_can_write :: "('d, 'c) BZ2File \<Rightarrow> error + unit" where
  "check_can_write h =
     (case writable h of
        Inl e \<Rightarrow> Inl e
      | Inr b \<Rightarrow> if \<not> b then Inl (UnsupportedOperation ''File not open for writing'')
                 else Inr ())"

definition check_can_seek :: "('d, 'c) BZ2File \<Rightarrow> world \<Rightarrow> error + unit" where
  "check_can_seek h w =
     (case readable h of
        Inl e \<Rightarrow> Inl e
      | Inr b \<Rightarrow>
          if \<not> b
          then Inl (UnsupportedOperation ''Seeking is only supported on files open for reading'')
          else (case fp h of
                  None \<Rightarrow> Inr ()
                | Some r \<Rightarrow>
                    (case seekable_attr (files w r) of
                       Some False \<Rightarrow>
                         Inl (UnsupportedOperation
                                ''The underlying file object does not support seeking'')
                     | _ \<Rightarrow> Inr ())))"


definition seekable :: "('d, 'c) BZ2File \<Rightarrow> world \<Rightarrow> error + bool" where
  "seekable h w =
     (case readable h of
        Inl e \<Rightarrow> Inl e
      | Inr b \<Rightarrow>
          if \<not> b then Inr False
          else (case fp h of
                  None \<Rightarrow> Inr False
                | Some r \<Rightarrow>
                    (case seekable_attr (files w r) of
                       Some a \<Rightarrow> Inr a
                     | None \<Rightarrow> Inr (has_seek (files w r)))))"


section \<open>The readahead buffer\<close>

text \<open>
  One pass through the body of the \<open>while True\<close> loop of \<open>_fill_buffer\<close>:
  \<open>Inr (Some b)\<close> is \<open>return b\<close>, \<open>Inr None\<close> is falling off the end of the body
  (the loop goes round again), \<open>Inl e\<close> is an exception.
\<close>

definition fill_step ::
  "('d, 'c) codec \<Rightarrow> ('d, 'c) BZ2File \<Rightarrow> world \<Rightarrow> (bool option, 'd, 'c) outcome" where
  "fill_step C h w =
     (if truthy (buffer h) then (Inr (Some True), h, w)
      else
        (case decompressor h of
           None \<Rightarrow> (Inl (AttributeError ''unused_data''), h, w)
         | Some d \<Rightarrow>
             (case (if unused_data C d \<noteq> []
                    then Inr (unused_data C d, BZ2Decompressor C,
                              h\<lparr>decompressor := Some (BZ2Decompressor C)\<rparr>, w)
                    else (case fp h of
                            None \<Rightarrow> Inl (AttributeError ''read'')
                          | Some r \<Rightarrow>
                              (let (blk, f) = fp_read BUFFER_SIZE (files w r)
                               in Inr (blk, d, h, set_file r f w)))) of
                Inl e \<Rightarrow> (Inl e, h, w)
              | Inr (rawblock, d1, h1, w1) \<Rightarrow>
                  if rawblock = []
                  then (case decompress C d1 [] of
                          Inl (EOFError m) \<Rightarrow>
                            (Inr (Some False), h1\<lparr>mode := MODE_READ_EOF, fsize := pos h1\<rparr>, w1)
                        | Inl e \<Rightarrow> (Inl e, h1, w1)
                        | Inr (out, d2) \<Rightarrow>
                            (Inl (EOFError
                               ''Compressed file ended before the end-of-stream marker was reached''),
                             h1\<lparr>decompressor := Some d2\<rparr>, w1))
                  else (case decompress C d1 rawblock of
                          Inr (out, d2) \<Rightarrow>
                            (Inr None, h1\<lparr>buffer := Some out, decompressor := Some d2\<rparr>, w1)
                        | Inl (EOFError m) \<Rightarrow>
                            (case decompress C (BZ2Decompressor C) rawblock of
                               Inr (out, d2) \<Rightarrow>
                                 (Inr None, h1\<lparr>decompressor := Some d2, buffer := Some out\<rparr>, w1)
                             | Inl e \<Rightarrow>
                                 (Inl e, h1\<lparr>decompressor := Some (BZ2Decompressor C)\<rparr>, w1))
                        | Inl e \<Rightarrow> (Inl e, h1, w1)))))"

text \<open>
  \<open>_fill_buffer\<close>. Nothing in the code bounds the loop: a decompressor that keeps
  returning no data and keeps reporting unused data makes it run forever. The result
  \<open>None\<close> stands for a call that does not return.
\<close>

partial_function (option) fill_buffer ::
  "('d, 'c) codec \<Rightarrow> ('d, 'c) BZ2File \<Rightarrow> world \<Rightarrow> (bool, 'd, 'c) outcome option" where
  "fill_buffer C h w =
     (case fill_step C h w of
        (Inl e, h1, w1) \<Rightarrow> Some (Inl e, h1, w1)
      | (Inr (Some b), h1, w1) \<Rightarrow> Some (Inr b, h1, w1)
      | (Inr None, h1, w1) \<Rightarrow> fill_buffer C h1 w1)"

text \<open>
  \<open>_read_all\<close>: the loop with its local variable \<open>blocks\<close>, then the function. The
  result is \<open>None\<close> (Python's) when \<open>return_data\<close> is false.
\<close>

partial_function (option) read_all_loop ::
  "('d, 'c) codec \<Rightarrow> bool \<Rightarrow> string list \<Rightarrow> ('d, 'c) BZ2File \<Rightarrow> world \<Rightarrow>
   (string option, 'd, 'c) outcome option" where
  "read_all_loop C return_data blocks h w =
     Option.bind (fill_buffer C h w) (\<lambda>(r, h1, w1).
       case r of
         Inl e \<Rightarrow> Some (Inl e, h1, w1)
       | Inr got \<Rightarrow>
           if got
           then (case buffer h1 of
                   None \<Rightarrow> Some (Inl (TypeError ''object of type NoneType has no len()''), h1, w1)
                 | Some b \<Rightarrow>
                     read_all_loop C return_data
                       (if return_data then blocks @ [b] else blocks)
                       (h1\<lparr>pos := pos h1 + int (length b), buffer := None\<rparr>) w1)
           else Some (Inr (if return_data then Some (concat blocks) else None), h1, w1))"

definition read_all ::
  "('d, 'c) codec \<Rightarrow> bool \<Rightarrow> ('d, 'c) BZ2File \<Rightarrow> world \<Rightarrow>
   (string option, 'd, 'c) outcome option" where
  "read_all C return_data h w = read_all_loop C return_data [] h w"

text \<open>\<open>_read_block\<close>: a block of up to \<open>n\<close> bytes.\<close>

partial_function (option) read_block_loop ::
  "('d, 'c) codec \<Rightarrow> bool \<Rightarrow> int \<Rightarrow> string list \<Rightarrow> ('d, 'c) BZ2File \<Rightarrow> world \<Rightarrow>
   (string option, 'd, 'c) outcome option" where
  "read_block_loop C return_data n blocks h w =
     (if n > 0
      then Option.bind (fill_buffer C h w) (\<lambda>(r, h1, w1).
        case r of
          Inl e \<Rightarrow> Some (Inl e, h1, w1)
        | Inr got \<Rightarrow>
            if got
            then (case buffer h1 of
                    None \<Rightarrow> Some (Inl (TypeError ''object of type NoneType has no len()''), h1, w1)
                  | Some b \<Rightarrow>
                      (let (data, h2) =
                             (if n < int (length b)
                              then (take (nat n) b, h1\<lparr>buffer := Some (drop (nat n) b)\<rparr>)
                              else (b, h1\<lparr>buffer := None\<rparr>))
                       in read_block_loop C return_data (n - int (length data))
                            (if return_data then blocks @ [data] else blocks)
                            (h2\<lparr>pos := pos h2 + int (length data)\<rparr>) w1))
            else Some (Inr (if return_data then Some (concat blocks) else None), h1, w1))
      else Some (Inr (if return_data then Some (concat blocks) else None), h, w))"

definition read_block ::
  "('d, 'c) codec \<Rightarrow> int \<Rightarrow> bool \<Rightarrow> ('d, 'c) BZ2File \<Rightarrow> world \<Rightarrow>
   (string option, 'd, 'c) outcome option" where
  "read_block C n return_data h w = read_block_loop C return_data n [] h w"

section \<open>Reading\<close>

text \<open>\<open>peek\<close> returns \<open>self._buffer\<close>, or an empty byte string at the end.\<close>

definition peek ::
  "('d, 'c) codec \<Rightarrow> int \<Rightarrow> ('d, 'c) BZ2File \<Rightarrow> world \<Rightarrow>
   (string option, 'd, 'c) outcome option" where
  "peek C n h w =
     (case check_can_read h of
        Inl e \<Rightarrow> Some (Inl e, h, w)
      | Inr _ \<Rightarrow>
          if mode h = MODE_READ_EOF then Some (Inr (Some []), h, w)
          else Option.bind (fill_buffer C h w) (\<lambda>(r, h1, w1).
                 case r of
                   Inl e \<Rightarrow> Some (Inl e, h1, w1)
                 | Inr got \<Rightarrow>
                     if \<not> got then Some (Inr (Some []), h1, w1)
                     else Some (Inr (buffer h1), h1, w1)))"

text \<open>\<open>read\<close>: the argument is \<open>None\<close> or an integer.\<close>

definition read ::
  "('d, 'c) codec \<Rightarrow> int option \<Rightarrow> ('d, 'c) BZ2File \<Rightarrow> world \<Rightarrow>
   (string option, 'd, 'c) outcome option" where
  "read C sz h w =
     (case sz of
        None \<Rightarrow> Some (Inl (TypeError []), h, w)
      | Some n \<Rightarrow>
          (case check_can_read h of
             Inl e \<Rightarrow> Some (Inl e, h, w)
           | Inr _ \<Rightarrow>
               if mode h = MODE_READ_EOF \<or> n = 0 then Some (Inr (Some []), h, w)
               else if n < 0 then read_all C True h w
               else read_block C n True h w))"

definition read1 ::
  "('d, 'c) codec \<Rightarrow> int \<Rightarrow> ('d, 'c) BZ2File \<Rightarrow> world \<Rightarrow>
   (string option, 'd, 'c) outcome option" where
  "read1 C n h w =
     (case check_can_read h of
        Inl e \<Rightarrow> Some (Inl e, h, w)
      | Inr _ \<Rightarrow>
          if n = 0 \<or> mode h = MODE_READ_EOF then Some (Inr (Some []), h, w)
          else Option.bind (fill_buffer C h w) (\<lambda>(r, h1, w1).
                 case r of
                   Inl e \<Rightarrow> Some (Inl e, h1, w1)
                 | Inr got \<Rightarrow>
                     if \<not> got then Some (Inr (Some []), h1, w1)
                     else (case buffer h1 of
                             None \<Rightarrow>
                               Some (Inl (TypeError ''object of type NoneType has no len()''),
                                     h1, w1)
                           | Some b \<Rightarrow>
                               (let (data, h2) =
                                      (if 0 < n \<and> n < int (length b)
                                       then (take (nat n) b, h1\<lparr>buffer := Some (drop (nat n) b)\<rparr>)
                                       else (b, h1\<lparr>buffer := None\<rparr>))
                                in Some (Inr (Some data),
                                         h2\<lparr>pos := pos h2 + int (length data)\<rparr>, w1)))))"

section \<open>Writing\<close>

text \<open>\<open>write\<close> (the name is primed: \<open>write\<close> is a keyword here).\<close>

definition write' ::
  "('d, 'c) codec \<Rightarrow> string \<Rightarrow> ('d, 'c) BZ2File \<Rightarrow> world \<Rightarrow> (int, 'd, 'c) outcome" where
  "write' C data h w =
     (case check_can_write h of
        Inl e \<Rightarrow> (Inl e, h, w)
      | Inr _ \<Rightarrow>
          (case compressor h of
             None \<Rightarrow> (Inl (AttributeError ''_compressor''), h, w)
           | Some c \<Rightarrow>
               (let (compressed, c1) = compress C c data;
                    h1 = h\<lparr>compressor := Some c1\<rparr>
                in case fp h1 of
                     None \<Rightarrow> (Inl (AttributeError ''write''), h1, w)
                   | Some r \<Rightarrow>
                       (Inr (int (length data)),
                        h1\<lparr>pos := pos h1 + int (length data)\<rparr>,
                        set_file r (fp_write compressed (files w r)) w))))"

section \<open>Seeking\<close>

text \<open>\<open>_rewind\<close>; a file object without a \<open>seek\<close> attribute raises at the first line.\<close>

definition rewind ::
  "('d, 'c) codec \<Rightarrow> ('d, 'c) BZ2File \<Rightarrow> world \<Rightarrow> (unit, 'd, 'c) outcome" where
  "rewind C h w =
     (case fp h of
        None \<Rightarrow> (Inl (AttributeError ''seek''), h, w)
      | Some r \<Rightarrow>
          if \<not> has_seek (files w r) then (Inl (AttributeError ''seek''), h, w)
          else (Inr (),
                h\<lparr>mode := MODE_READ, pos := 0,
                  decompressor := Some (BZ2Decompressor C), buffer := None\<rparr>,
                set_file r (fp_seek0 (files w r)) w))"

text \<open>
  \<open>seek\<close> in its three steps: the offset is made absolute, then made the number of
  bytes to skip forward (after a rewind when the target lies behind), then that many
  bytes are read and discarded.
\<close>

definition seek_absolute ::
  "('d, 'c) codec \<Rightarrow> int \<Rightarrow> int \<Rightarrow> ('d, 'c) BZ2File \<Rightarrow> world \<Rightarrow> (int, 'd, 'c) outcome option" where
  "seek_absolute C offset whence h w =
     (if whence = 0 then Some (Inr offset, h, w)
      else if whence = 1 then Some (Inr (pos h + offset), h, w)
      else if whence = 2
      then Option.bind (if fsize h < 0 then read_all C False h w else Some (Inr None, h, w))
             (\<lambda>(r, h1, w1).
                case r of
                  Inl e \<Rightarrow> Some (Inl e, h1, w1)
                | Inr _ \<Rightarrow> Some (Inr (fsize h1 + offset), h1, w1))
      else Some (Inl (ValueError ''Invalid value for whence''), h, w))"

definition seek_skip ::
  "('d, 'c) codec \<Rightarrow> int \<Rightarrow> ('d, 'c) BZ2File \<Rightarrow> world \<Rightarrow> (int, 'd, 'c) outcome" where
  "seek_skip C offset h w =
     (if offset < pos h
      then (case rewind C h w of
              (Inl e, h1, w1) \<Rightarrow> (Inl e, h1, w1)
            | (Inr _, h1, w1) \<Rightarrow> (Inr offset, h1, w1))
      else (Inr (offset - pos h), h, w))"

definition seek ::
  "('d, 'c) codec \<Rightarrow> int \<Rightarrow> int \<Rightarrow> ('d, 'c) BZ2File \<Rightarrow> world \<Rightarrow> (int, 'd, 'c) outcome option" where
  "seek C offset whence h w =
     (case check_can_seek h w of
        Inl e \<Rightarrow> Some (Inl e, h, w)
      | Inr _ \<Rightarrow>
          Option.bind (seek_absolute C offset whence h w) (\<lambda>(r, h1, w1).
            case r of
              Inl e \<Rightarrow> Some (Inl e, h1, w1)
            | Inr target \<Rightarrow>
                (case seek_skip C target h1 w1 of
                   (Inl e, h2, w2) \<Rightarrow> Some (Inl e, h2, w2)
                 | (Inr skip, h2, w2) \<Rightarrow>
                     Option.bind
                       (if mode h2 \<noteq> MODE_READ_EOF then read_block C skip False h2 w2
                        else Some (Inr None, h2, w2))
                       (\<lambda>(r3, h3, w3).
                          case r3 of
                            Inl e \<Rightarrow> Some (Inl e, h3, w3)
                          | Inr _ \<Rightarrow> Some (Inr (pos h3), h3, w3)))))"

section \<open>The methods inherited from \<open>io.BufferedIOBase\<close>\<close>

text \<open>
  \<open>readinto\<close>, \<open>readline\<close>, \<open>readlines\<close> and \<open>writelines\<close> take the lock and call the
  method of the same name of \<open>io.BufferedIOBase\<close>. That class belongs to the standard
  library; the definitions below follow its reference implementation, which builds
  these four methods from \<open>read\<close>, \<open>peek\<close>, \<open>write\<close> and the \<open>closed\<close> property.
\<close>

text \<open>
  \<open>readinto(b)\<close>: \<open>data = self.read(len(b)); b[:len(data)] = data; return len(data)\<close>.
  The model returns the count and the new contents of \<open>b\<close>.
\<close>

definition readinto ::
  "('d, 'c) codec \<Rightarrow> string \<Rightarrow> ('d, 'c) BZ2File \<Rightarrow> world \<Rightarrow>
   (int \<times> string, 'd, 'c) outcome option" where
  "readinto C b h w =
     Option.bind (read C (Some (int (length b))) h w) (\<lambda>(r, h1, w1).
       case r of
         Inl e \<Rightarrow> Some (Inl e, h1, w1)
       | Inr None \<Rightarrow> Some (Inl (TypeError ''object of type NoneType has no len()''), h1, w1)
       | Inr (Some data) \<Rightarrow>
           Some (Inr (int (length data), data @ drop (length data) b), h1, w1))"






text \<open>\<open>IOBase.writelines(lines)\<close>: check that the file is not closed, then write each line.\<close>

fun writelines_loop ::
  "('d, 'c) codec \<Rightarrow> string list \<Rightarrow> ('d, 'c) BZ2File \<Rightarrow> world \<Rightarrow> (unit, 'd, 'c) outcome" where
  "writelines_loop C [] h w = (Inr (), h, w)"
| "writelines_loop C (line # lines) h w =
     (case write' C line h w of
        (Inl e, h1, w1) \<Rightarrow> (Inl e, h1, w1)
      | (Inr _, h1, w1) \<Rightarrow> writelines_loop C lines h1 w1)"

definition writelines ::
  "('d, 'c) codec \<Rightarrow> string list \<Rightarrow> ('d, 'c) BZ2File \<Rightarrow> world \<Rightarrow> (unit, 'd, 'c) outcome" where
  "writelines C seq h w =
     (case check_not_closed h of
        Inl e \<Rightarrow> (Inl e, h, w)
      | Inr _ \<Rightarrow> writelines_loop C seq h w)"

section \<open>Sequences of calls on a handle opened for reading\<close>

text \<open>
  \<open>reading C h0 w0 h w\<close>: the handle and world \<open>(h, w)\<close> are what some sequence of calls
  of \<open>read\<close>, \<open>read1\<close>, \<open>peek\<close> and \<open>seek\<close>, with any arguments and any outcome,
  makes of \<open>(h0, w0)\<close>.
\<close>

inductive reading ::
  "('d, 'c) codec \<Rightarrow> ('d, 'c) BZ2File \<Rightarrow> world \<Rightarrow> ('d, 'c) BZ2File \<Rightarrow> world \<Rightarrow> bool"
  for C :: "('d, 'c) codec" and h0 :: "('d, 'c) BZ2File" and w0 :: world where
  reading_start: "reading C h0 w0 h0 w0"
| reading_read: "reading C h0 w0 h w \<Longrightarrow> read C sz h w = Some (r, h1, w1) \<Longrightarrow> reading C h0 w0 h1 w1"
| reading_read1: "reading C h0 w0 h w \<Longrightarrow> read1 C n h w = Some (r, h1, w1) \<Longrightarrow> reading C h0 w0 h1 w1"
| reading_peek: "reading C h0 w0 h w \<Longrightarrow> peek C n h w = Some (r, h1, w1) \<Longrightarrow> reading C h0 w0 h1 w1"
| reading_seek: "reading C h0 w0 h w \<Longrightarrow> seek C off wh h w = Some (ri, h1, w1) \<Longrightarrow> reading C h0 w0 h1 w1"

text \<open>
  \<open>drains C h w data h1 w1\<close>: filling the buffer and taking it whole, again and again
  until \<open>_fill_buffer\<close> returns false, delivers \<open>data\<close> and ends in \<open>(h1, w1)\<close>. This
  is the loop of \<open>_read_all\<close> as a relation.
\<close>

inductive drains ::
  "('d, 'c) codec \<Rightarrow> ('d, 'c) BZ2File \<Rightarrow> world \<Rightarrow> string \<Rightarrow> ('d, 'c) BZ2File \<Rightarrow> world \<Rightarrow> bool"
  for C :: "('d, 'c) codec" where
  drains_eof: "fill_buffer C h w = Some (Inr False, h1, w1) \<Longrightarrow> drains C h w [] h1 w1"
| drains_block:
    "fill_buffer C h w = Some (Inr True, h1, w1) \<Longrightarrow> buffer h1 = Some b \<Longrightarrow>
     drains C (h1\<lparr>pos := pos h1 + int (length b), buffer := None\<rparr>) w1 rest h2 w2 \<Longrightarrow>
     drains C h w (b @ rest) h2 w2"

section \<open>What is assumed of the codec\<close>

text \<open>
  \<open>dec_chunks\<close> feeds a list of chunks to a decompressor, one call of \<open>decompress\<close> per
  chunk, and joins the outputs.
\<close>

fun dec_chunks :: "('d, 'c) codec \<Rightarrow> 'd \<Rightarrow> string list \<Rightarrow> error + (string \<times> 'd)" where
  "dec_chunks C d [] = Inr ([], d)"
| "dec_chunks C d (c # cs) =
     (case decompress C d c of
        Inl e \<Rightarrow> Inl e
      | Inr (out, d1) \<Rightarrow>
          (case dec_chunks C d1 cs of
             Inl e \<Rightarrow> Inl e
           | Inr (outs, d2) \<Rightarrow> Inr (out @ outs, d2)))"

definition at_eof :: "('d, 'c) codec \<Rightarrow> 'd \<Rightarrow> bool" where
  "at_eof C d \<longleftrightarrow> (\<forall>x. \<exists>m. decompress C d x = Inl (EOFError m))"

text \<open>
  \<open>decodes C z B\<close>: the bytes \<open>z\<close> are one complete compressed stream of the data \<open>B\<close>.
  However the stream is cut into non-empty chunks: while it is incomplete a new
  decompressor accepts the chunks, reports no unused data and accepts an empty input;
  with the chunk that completes it the outputs add up to \<open>B\<close>, the bytes after the end of
  the stream are the unused data, and the decompressor raises \<open>EOFError\<close> from then on.
\<close>

definition decodes :: "('d, 'c) codec \<Rightarrow> string \<Rightarrow> string \<Rightarrow> bool" where
  "decodes C z B \<longleftrightarrow>
     z \<noteq> [] \<and>
     (\<forall>cs. [] \<notin> set cs \<and> length (concat cs) < length z \<and>
           concat cs = take (length (concat cs)) z \<longrightarrow>
           (\<exists>out d. dec_chunks C (BZ2Decompressor C) cs = Inr (out, d) \<and>
                    unused_data C d = [] \<and>
                    (\<exists>out1 d1. decompress C d [] = Inr (out1, d1)))) \<and>
     (\<forall>cs c u. [] \<notin> set cs \<and> length (concat cs) < length z \<and>
           concat cs @ c = z @ u \<longrightarrow>
           (\<exists>d. dec_chunks C (BZ2Decompressor C) (cs @ [c]) = Inr (B, d) \<and>
                unused_data C d = u \<and> at_eof C d))"

text \<open>The compressed bytes a compressor of level \<open>lvl\<close> produces for one \<open>write\<close> and \<open>close\<close>.\<close>

definition encode :: "('d, 'c) codec \<Rightarrow> int \<Rightarrow> string \<Rightarrow> string" where
  "encode C lvl B =
     (let (compressed, c1) = compress C (BZ2Compressor C lvl) B in compressed @ flush C c1)"

section \<open>A small codec and file objects for the examples\<close>

text \<open>
  A stream of this codec is a sequence of pairs \<open>+b\<close>, one per data byte \<open>b\<close>, ended by
  a full stop. The decompressor expects a tag, or the byte after a \<open>+\<close>, or has seen the
  full stop and keeps what followed it as unused data.
\<close>

datatype mini_decoder = Tag | Lit | Done string

fun mini_decompress :: "mini_decoder \<Rightarrow> string \<Rightarrow> error + (string \<times> mini_decoder)" where
  "mini_decompress (Done u) cs = Inl (EOFError ''End of stream already reached'')"
| "mini_decompress st [] = Inr ([], st)"
| "mini_decompress Tag (c # cs) =
     (if c = CHR ''+'' then mini_decompress Lit cs
      else if c = CHR ''.'' then Inr ([], Done cs)
      else Inl (IOError ''invalid data stream''))"
| "mini_decompress Lit (c # cs) =
     (case mini_decompress Tag cs of
        Inl e \<Rightarrow> Inl e
      | Inr (out, st) \<Rightarrow> Inr (c # out, st))"

fun mini_unused :: "mini_decoder \<Rightarrow> string" where
  "mini_unused (Done u) = u"
| "mini_unused st = []"

fun mini_compress :: "string \<Rightarrow> string" where
  "mini_compress [] = []"
| "mini_compress (b # bs) = CHR ''+'' # b # mini_compress bs"

definition mini_codec :: "(mini_decoder, unit) codec" where
  "mini_codec =
     \<lparr>BZ2Decompressor = Tag, decompress = mini_decompress, unused_data = mini_unused,
      BZ2Compressor = (\<lambda>lvl. ()), compress = (\<lambda>c data. (mini_compress data, c)),
      flush = (\<lambda>c. ''.'')\<rparr>"

text \<open>A seekable in-memory file object holding \<open>data\<close>, and a world of such objects.\<close>

definition memfile :: "string \<Rightarrow> pyfile" where
  "memfile data =
     \<lparr>content = data, cursor = 0, close_calls = 0, seekable_attr = Some True,
      has_seek = True, append = False, fd = 3\<rparr>"

definition memworld :: "string \<Rightarrow> world" where
  "memworld data = \<lparr>files = (\<lambda>r. memfile data), next_ref = 1, warnings = []\<rparr>"

definition no_open :: "string \<Rightarrow> string \<Rightarrow> error + pyfile" where
  "no_open name md = Inl (IOError ''No such file or directory'')"

text \<open>A handle opened for reading on file object \<open>0\<close>, and one opened for writing.\<close>

definition reader :: "('d, 'c) codec \<Rightarrow> ('d, 'c) BZ2File" where
  "reader C =
     \<lparr>fp = Some 0, closefp = False, mode = MODE_READ, pos = 0, fsize = - 1,
      decompressor = Some (BZ2Decompressor C), compressor = None, buffer = None\<rparr>"

definition writer :: "('d, 'c) codec \<Rightarrow> int \<Rightarrow> ('d, 'c) BZ2File" where
  "writer C lvl =
     \<lparr>fp = Some 0, closefp = False, mode = MODE_WRITE, pos = 0, fsize = - 1,
      decompressor = None, compressor = Some (BZ2Compressor C lvl), buffer = None\<rparr>"


section \<open>Invariants used in the proofs\<close>

text \<open>
  \<open>advanced h w h1 w1\<close>: from \<open>(h, w)\<close> to \<open>(h1, w1)\<close> nothing changed but the buffer,
  the decompressor, the mode, the position, the size and the cursor of the handle's file
  object.
\<close>

definition advanced ::
  "('d, 'c) BZ2File \<Rightarrow> world \<Rightarrow> ('d, 'c) BZ2File \<Rightarrow> world \<Rightarrow> bool" where
  "advanced h w h1 w1 \<longleftrightarrow>
     fp h1 = fp h \<and> closefp h1 = closefp h \<and> compressor h1 = compressor h \<and>
     next_ref w1 = next_ref w \<and> warnings w1 = warnings w \<and>
     (\<forall>q. (files w1 q)\<lparr>cursor := 0\<rparr> = (files w q)\<lparr>cursor := 0\<rparr> \<and>
          (fp h \<noteq> Some q \<longrightarrow> files w1 q = files w q))"

text \<open>
  \<open>stream_inv C D h w\<close>: the handle reads a stream whose decompressed data are \<open>D\<close>.
  Its position lies within \<open>D\<close>; its size is unknown or the length of \<open>D\<close>; draining it
  delivers what follows the position, or it is at the end of the stream; and after any
  rewind draining delivers all of \<open>D\<close>.
\<close>

definition stream_inv ::
  "('d, 'c) codec \<Rightarrow> string \<Rightarrow> ('d, 'c) BZ2File \<Rightarrow> world \<Rightarrow> bool" where
  "stream_inv C D h w \<longleftrightarrow>
     0 \<le> pos h \<and> pos h \<le> int (length D) \<and>
     (fsize h = - 1 \<or> fsize h = int (length D)) \<and>
     (mode h = MODE_READ \<and> (\<exists>hE wE. drains C h w (drop (nat (pos h)) D) hE wE) \<or>
      mode h = MODE_READ_EOF \<and> pos h = int (length D) \<and> fsize h = int (length D)) \<and>
     (\<forall>k h1 w1. rewind C (h\<lparr>fsize := k\<rparr>) w = (Inr (), h1, w1) \<longrightarrow>
        (\<exists>hE wE. drains C h1 w1 D hE wE))"

section \<open>Construction, mode checks and closing\<close>

lemmas check_defs = check_not_closed_def closed_def readable_def writable_def
  check_can_read_def check_can_write_def check_can_seek_def

text \<open>
  C10. The compression level is checked before the mode string is looked at and before
  any file is opened: with a level outside 1..9 the constructor raises the range error
  for every mode, every target and every \<open>buffering\<close> argument, and the store of file
  objects is as it was.
\<close>

theorem init_checks_level_first:
  "\<not> (1 \<le> lvl \<and> lvl \<le> 9) \<Longrightarrow>
   fst (init C opn tgt md bf lvl w) = Inl (ValueError ''compresslevel must be between 1 and 9'') \<and>
   files (snd (init C opn tgt md bf lvl w)) = files w \<and>
   next_ref (snd (init C opn tgt md bf lvl w)) = next_ref w"
  by (simp add: init_def Let_def)

theorem init_checks_level_first_witness:
  "\<not> (1 \<le> (0::int) \<and> (0::int) \<le> 9) \<and>
   fst (init mini_codec no_open (Path ''data.bz2'') ''r'' None 0 (memworld [])) =
     Inl (ValueError ''compresslevel must be between 1 and 9'') \<and>
   files (snd (init mini_codec no_open (Path ''data.bz2'') ''r'' None 0 (memworld []))) =
     files (memworld []) \<and>
   next_ref (snd (init mini_codec no_open (Path ''data.bz2'') ''r'' None 0 (memworld []))) =
     next_ref (memworld [])"
  using init_checks_level_first [of 0 mini_codec no_open "Path ''data.bz2''" "''r''" None "memworld []"]
  by simp

text \<open>
  C5, as the code has it. On a handle opened for writing, \<open>read\<close> with an integer
  size, \<open>read1\<close>, \<open>peek\<close>, \<open>readinto\<close> and \<open>seek\<close> raise \<open>UnsupportedOperation\<close> and leave
  handle and world as they were; on a handle opened for reading (at the end of the
  stream or not) so do \<open>write\<close> and \<open>writelines\<close> with at least one line.
\<close>

theorem mode_enforcement:
  "(mode h = MODE_WRITE \<longrightarrow>
      read C (Some n) h w = Some (Inl (UnsupportedOperation ''File not open for reading''), h, w) \<and>
      read1 C n h w = Some (Inl (UnsupportedOperation ''File not open for reading''), h, w) \<and>
      peek C n h w = Some (Inl (UnsupportedOperation ''File not open for reading''), h, w) \<and>
      readinto C b h w = Some (Inl (UnsupportedOperation ''File not open for reading''), h, w) \<and>
      seek C off wh h w =
        Some (Inl (UnsupportedOperation ''Seeking is only supported on files open for reading''),
              h, w)) \<and>
   (mode h = MODE_READ \<or> mode h = MODE_READ_EOF \<longrightarrow>
      write' C data h w = (Inl (UnsupportedOperation ''File not open for writing''), h, w) \<and>
      writelines C (line # lines) h w =
        (Inl (UnsupportedOperation ''File not open for writing''), h, w))"
  by (auto simp: read_def read1_def peek_def readinto_def seek_def write'_def writelines_def
      check_defs)

theorem mode_enforcement_witness:
  "mode (writer mini_codec 9) = MODE_WRITE \<and>
   read mini_codec (Some 5) (writer mini_codec 9) (memworld []) =
     Some (Inl (UnsupportedOperation ''File not open for reading''),
           writer mini_codec 9, memworld []) \<and>
   seek mini_codec 0 0 (writer mini_codec 9) (memworld []) =
     Some (Inl (UnsupportedOperation ''Seeking is only supported on files open for reading''),
           writer mini_codec 9, memworld []) \<and>
   mode (reader mini_codec) = MODE_READ \<and>
   write' mini_codec ''abc'' (reader mini_codec) (memworld []) =
     (Inl (UnsupportedOperation ''File not open for writing''), reader mini_codec, memworld []) \<and>
   writelines mini_codec [''abc'', ''de''] (reader mini_codec) (memworld []) =
     (Inl (UnsupportedOperation ''File not open for writing''), reader mini_codec, memworld [])"
  using mode_enforcement [of "writer mini_codec 9" mini_codec 5 "memworld []" "[]" 0 0 "[]" "[]" "[]"]
    mode_enforcement [of "reader mini_codec" mini_codec 5 "memworld []" "[]" 0 0
      "''abc''" "''abc''" "[''de'']"]
  by (simp add: writer_def reader_def)

text \<open>
  The claim as it was stated fails twice: \<open>read(None)\<close> on a handle opened for writing
  raises \<open>TypeError\<close>, since the argument is looked at before the mode; and \<open>writelines\<close>
  of no lines on a handle opened for reading calls \<open>write\<close> not once and returns.
\<close>

theorem mode_enforcement_counterexample:
  "mode (writer mini_codec 9) = MODE_WRITE \<and>
   read mini_codec None (writer mini_codec 9) (memworld []) =
     Some (Inl (TypeError []), writer mini_codec 9, memworld []) \<and>
   mode (reader mini_codec) = MODE_READ \<and>
   writelines mini_codec [] (reader mini_codec) (memworld []) =
     (Inr (), reader mini_codec, memworld [])"
  by (simp add: read_def writelines_def check_defs reader_def writer_def)









end
